theory Spec2Isabelle
  imports Complex_Main
begin

section \<open>JavaScript values\<close>

text \<open>
  Values and schema nodes are JavaScript data. An object is a plain object: the list of its
  own enumerable string-keyed properties in enumeration order (keys pairwise distinct), with
  \<^verbatim>\<open>Object.prototype\<close> as its prototype. A number is a finite double, given by its exact
  rational value (the sign of a zero is not kept). \<open>JBuiltin n\<close> is the member that plain
  objects inherit under the name \<open>n\<close>: a built-in function, or for \<^verbatim>\<open>__proto__\<close> the
  prototype object itself.
\<close>

datatype jsval =
    JUndefined
  | JNull
  | JBool bool
  | JNum rat
  | JStr string
  | JArr "jsval list"
  | JObj "(string \<times> jsval) list"
  | JBuiltin string

text \<open>
  What a call can raise: \<open>Error msg\<close> and \<open>TypeError msg\<close> are the program's own
  \<^verbatim>\<open>new Error(msg)\<close> and \<^verbatim>\<open>new TypeError(msg)\<close>; \<open>ErrorT prefix v\<close> is an
  \<^verbatim>\<open>Error\<close> whose message is the template literal \<open>prefix\<close> followed by the
  string conversion of \<open>v\<close>. The others are raised by the host: reading a property of
  \<^verbatim>\<open>undefined\<close>/\<^verbatim>\<open>null\<close>, iterating a value that is not iterable, a pattern the
  regular-expression engine refuses, and converting to a primitive an object that has no
  callable conversion method.
\<close>

datatype error =
    Error string
  | ErrorT string jsval
  | TypeError string
  | NullAccess
  | NotIterable
  | SyntaxError string
  | NotPrimitive

text \<open>
  What a check hands back when it does not throw: nothing, an \<^verbatim>\<open>Error\<close> object, or (for an
  \<^verbatim>\<open>async\<close> function) a promise, which is fulfilled or rejected with what the body threw.
\<close>

datatype settled = Fulfilled | Rejected error

datatype ret = RetUndefined | RetError error | RetPromise settled

text \<open>
  A compiled check is called with \<open>(value, ref)\<close>. The state \<open>'s\<close> carries the variables
  the closures of one compilation share (\<^verbatim>\<open>patternMatch\<close>).
\<close>

type_synonym 's check = "jsval \<Rightarrow> jsval \<Rightarrow> 's \<Rightarrow> (error + ret) \<times> 's"

type_synonym pure_check = "jsval \<Rightarrow> jsval \<Rightarrow> error + ret"

definition lift_check :: "pure_check \<Rightarrow> 's check" where
  "lift_check f = (\<lambda>value ref s. (f value ref, s))"

definition bindE :: "error + 'a \<Rightarrow> ('a \<Rightarrow> error + 'b) \<Rightarrow> error + 'b" where
  "bindE m f = (case m of Inl e \<Rightarrow> Inl e | Inr a \<Rightarrow> f a)"

text \<open>An \<^verbatim>\<open>async\<close> function never throws to its caller: it returns a promise.\<close>

definition async_ret :: "error + 'a \<Rightarrow> error + ret" where
  "async_ret r = (case r of Inl e \<Rightarrow> Inr (RetPromise (Rejected e)) | Inr _ \<Rightarrow> Inr (RetPromise Fulfilled))"

subsection \<open>The host\<close>

text \<open>The value of a numeric expression: a finite double, an infinity or \<^verbatim>\<open>NaN\<close>.\<close>

datatype number = Finite rat | PosInf | NegInf | NaN

text \<open>
  What the program takes from its surroundings is a parameter:
  \<^item> \<open>regexp p\<close> is \<^verbatim>\<open>new RegExp(p)\<close> and \<open>regexp_i p\<close> is \<^verbatim>\<open>new RegExp(p, 'i')\<close>: \<open>None\<close>
    when the engine refuses the pattern, else the test whether a subject has a match;
  \<^item> \<open>inherited v k\<close> is what a value other than a plain object (an array, a string, a number,
    a boolean, a built-in) finds under \<open>k\<close> on its prototype chain, \<open>None\<close> when nothing;
  \<^item> \<open>number_to_string\<close>, \<open>builtin_to_string\<close> and \<open>string_to_number\<close> are the string
    conversion of a number and of a built-in and the numeric conversion of a string;
  \<^item> Modelled from the spec: \<open>cache node\<close> is the check list the orchestrator, which is not
    among the sources, has stored in the slot \<^verbatim>\<open>node[OPTIMIZED]\<close>, the empty list when the
    slot is empty (the default \<^verbatim>\<open>optimized = []\<close>); the stored checks are used through what
    they return for \<open>(value, ref)\<close>.
\<close>

record host =
  regexp :: "string \<Rightarrow> (string \<Rightarrow> bool) option"
  regexp_i :: "string \<Rightarrow> (string \<Rightarrow> bool) option"
  inherited :: "jsval \<Rightarrow> string \<Rightarrow> jsval option"
  number_to_string :: "rat \<Rightarrow> string"
  builtin_to_string :: "string \<Rightarrow> string"
  string_to_number :: "string \<Rightarrow> number"
  cache :: "jsval \<Rightarrow> pure_check list"

subsection \<open>Properties of values\<close>

definition digit_char :: "nat \<Rightarrow> char" where
  "digit_char d = char_of (48 + d)"

fun string_of_nat :: "nat \<Rightarrow> string" where
  "string_of_nat n = (if n < 10 then [digit_char n] else string_of_nat (n div 10) @ [digit_char (n mod 10)])"

declare string_of_nat.simps [simp del]

definition is_whole :: "rat \<Rightarrow> bool" where
  "is_whole q = (of_int \<lfloor>q\<rfloor> = q)"

definition truthy :: "jsval \<Rightarrow> bool" where
  "truthy v = (case v of
       JUndefined \<Rightarrow> False
     | JNull \<Rightarrow> False
     | JBool b \<Rightarrow> b
     | JNum q \<Rightarrow> q \<noteq> 0
     | JStr s \<Rightarrow> s \<noteq> []
     | JArr _ \<Rightarrow> True
     | JObj _ \<Rightarrow> True
     | JBuiltin _ \<Rightarrow> True)"

definition nullish :: "jsval \<Rightarrow> bool" where
  "nullish v = (v = JUndefined \<or> v = JNull)"

text \<open>Own enumerable string-keyed properties: an array's and a string's are their indices.\<close>

definition own_props :: "jsval \<Rightarrow> (string \<times> jsval) list" where
  "own_props v = (case v of
       JObj ps \<Rightarrow> ps
     | JArr xs \<Rightarrow> zip (map string_of_nat [0..<length xs]) xs
     | JStr s \<Rightarrow> zip (map string_of_nat [0..<length s]) (map (\<lambda>c. JStr [c]) s)
     | _ \<Rightarrow> [])"

text \<open>\<^verbatim>\<open>Object.keys(v)\<close>\<close>

definition Object_keys :: "jsval \<Rightarrow> error + string list" where
  "Object_keys v = (if nullish v then Inl (TypeError ''Cannot convert undefined or null to object'')
                    else Inr (map fst (own_props v)))"

text \<open>The names of the members of \<^verbatim>\<open>Object.prototype\<close>, which every plain object inherits.\<close>

definition Object_prototype_names :: "string list" where
  "Object_prototype_names =
     [''constructor'', ''__defineGetter__'', ''__defineSetter__'', ''hasOwnProperty'',
      ''__lookupGetter__'', ''__lookupSetter__'', ''isPrototypeOf'', ''propertyIsEnumerable'',
      ''toString'', ''valueOf'', ''__proto__'', ''toLocaleString'']"

text \<open>
  \<^verbatim>\<open>v.k\<close> and \<^verbatim>\<open>v[k]\<close> for a string \<open>k\<close>: an own property first (the \<^verbatim>\<open>length\<close> of an
  array or a string included), then the prototype chain.
\<close>

definition member :: "host \<Rightarrow> jsval \<Rightarrow> string \<Rightarrow> error + jsval" where
  "member h v k =
     (if nullish v then Inl NullAccess
      else case map_of (own_props v) k of
             Some x \<Rightarrow> Inr x
           | None \<Rightarrow>
               (case v of
                  JObj ps \<Rightarrow> if k \<in> set Object_prototype_names then Inr (JBuiltin k) else Inr JUndefined
                | JArr xs \<Rightarrow>
                    if k = ''length'' then Inr (JNum (of_nat (length xs)))
                    else (case inherited h v k of Some x \<Rightarrow> Inr x | None \<Rightarrow> Inr JUndefined)
                | JStr s \<Rightarrow>
                    if k = ''length'' then Inr (JNum (of_nat (length s)))
                    else (case inherited h v k of Some x \<Rightarrow> Inr x | None \<Rightarrow> Inr JUndefined)
                | _ \<Rightarrow> (case inherited h v k of Some x \<Rightarrow> Inr x | None \<Rightarrow> Inr JUndefined)))"

text \<open>A property of a value that is neither \<^verbatim>\<open>undefined\<close> nor \<^verbatim>\<open>null\<close>.\<close>

definition field :: "host \<Rightarrow> jsval \<Rightarrow> string \<Rightarrow> jsval" where
  "field h v k = (case member h v k of Inr x \<Rightarrow> x | Inl _ \<Rightarrow> JUndefined)"

subsection \<open>Conversions\<close>

fun join_with :: "string \<Rightarrow> string list \<Rightarrow> string" where
  "join_with sep [] = []"
| "join_with sep [s] = s"
| "join_with sep (s # t # ss) = s @ sep @ join_with sep (t # ss)"

text \<open>
  The string a value stands for as a property key, a pattern subject or a part of a template.
  An array is joined with commas, \<^verbatim>\<open>undefined\<close> and \<^verbatim>\<open>null\<close> elements giving the empty
  string. A plain object gives \<^verbatim>\<open>[object Object]\<close> through the inherited \<^verbatim>\<open>toString\<close>; an
  own \<^verbatim>\<open>toString\<close> property, which holds data and cannot be called, leaves no conversion
  (the inherited \<^verbatim>\<open>valueOf\<close>, or an own one, gives no primitive).
\<close>

fun ToString :: "host \<Rightarrow> jsval \<Rightarrow> error + string"
  and ToString_elements :: "host \<Rightarrow> jsval list \<Rightarrow> error + string list" where
  "ToString h JUndefined = Inr ''undefined''"
| "ToString h JNull = Inr ''null''"
| "ToString h (JBool b) = Inr (if b then ''true'' else ''false'')"
| "ToString h (JNum q) = Inr (number_to_string h q)"
| "ToString h (JStr s) = Inr s"
| "ToString h (JArr xs) = bindE (ToString_elements h xs) (\<lambda>ss. Inr (join_with '','' ss))"
| "ToString h (JObj ps) =
     (if ''toString'' \<in> set (map fst ps) then Inl NotPrimitive else Inr ''[object Object]'')"
| "ToString h (JBuiltin n) = Inr (builtin_to_string h n)"
| "ToString_elements h [] = Inr []"
| "ToString_elements h (x # xs) =
     bindE (if x = JUndefined \<or> x = JNull then Inr [] else ToString h x) (\<lambda>s.
     bindE (ToString_elements h xs) (\<lambda>ss. Inr (s # ss)))"

text \<open>\<^verbatim>\<open>v[k]\<close> for a computed key\<close>

definition member_at :: "host \<Rightarrow> jsval \<Rightarrow> jsval \<Rightarrow> error + jsval" where
  "member_at h v k = (if nullish v then Inl NullAccess else bindE (ToString h k) (member h v))"

text \<open>
  The primitive an operand of a relational operator is turned into: arrays, plain objects and
  built-ins go through their string conversion.
\<close>

definition ToPrimitive :: "host \<Rightarrow> jsval \<Rightarrow> error + jsval" where
  "ToPrimitive h v =
     (case v of
        JArr _ \<Rightarrow> bindE (ToString h v) (\<lambda>s. Inr (JStr s))
      | JObj _ \<Rightarrow> bindE (ToString h v) (\<lambda>s. Inr (JStr s))
      | JBuiltin _ \<Rightarrow> bindE (ToString h v) (\<lambda>s. Inr (JStr s))
      | _ \<Rightarrow> Inr v)"

text \<open>The number a primitive stands for.\<close>

definition ToNumber :: "host \<Rightarrow> jsval \<Rightarrow> number" where
  "ToNumber h v = (case v of
       JUndefined \<Rightarrow> NaN
     | JNull \<Rightarrow> Finite 0
     | JBool b \<Rightarrow> Finite (if b then 1 else 0)
     | JNum q \<Rightarrow> Finite q
     | JStr s \<Rightarrow> string_to_number h s
     | _ \<Rightarrow> NaN)"

definition number_less :: "number \<Rightarrow> number \<Rightarrow> bool" where
  "number_less x y = (case (x, y) of
       (Finite a, Finite b) \<Rightarrow> a < b
     | (Finite a, PosInf) \<Rightarrow> True
     | (NegInf, Finite b) \<Rightarrow> True
     | (NegInf, PosInf) \<Rightarrow> True
     | _ \<Rightarrow> False)"

text \<open>Strings compare by their code units, the first difference deciding.\<close>

fun string_less :: "string \<Rightarrow> string \<Rightarrow> bool" where
  "string_less [] [] = False"
| "string_less [] (d # t) = True"
| "string_less (c # s) [] = False"
| "string_less (c # s) (d # t) =
     (if (of_char c :: nat) < of_char d then True
      else if (of_char d :: nat) < of_char c then False
      else string_less s t)"

definition primitive_less :: "host \<Rightarrow> jsval \<Rightarrow> jsval \<Rightarrow> bool" where
  "primitive_less h x y =
     (case (x, y) of
        (JStr s, JStr t) \<Rightarrow> string_less s t
      | _ \<Rightarrow> number_less (ToNumber h x) (ToNumber h y))"

text \<open>\<^verbatim>\<open>a < b\<close> and \<^verbatim>\<open>a > b\<close>: the left operand is converted first.\<close>

definition js_lt :: "host \<Rightarrow> jsval \<Rightarrow> jsval \<Rightarrow> error + bool" where
  "js_lt h a b = bindE (ToPrimitive h a) (\<lambda>x. bindE (ToPrimitive h b) (\<lambda>y. Inr (primitive_less h x y)))"

definition js_gt :: "host \<Rightarrow> jsval \<Rightarrow> jsval \<Rightarrow> error + bool" where
  "js_gt h a b = bindE (ToPrimitive h a) (\<lambda>x. bindE (ToPrimitive h b) (\<lambda>y. Inr (primitive_less h y x)))"

text \<open>The relational operators where the program has made sure that both operands are numbers.\<close>

definition num_lt :: "jsval \<Rightarrow> jsval \<Rightarrow> bool" where
  "num_lt a b = (case (a, b) of (JNum x, JNum y) \<Rightarrow> x < y | _ \<Rightarrow> False)"

definition num_le :: "jsval \<Rightarrow> jsval \<Rightarrow> bool" where
  "num_le a b = (case (a, b) of (JNum x, JNum y) \<Rightarrow> x \<le> y | _ \<Rightarrow> False)"

definition num_gt :: "jsval \<Rightarrow> jsval \<Rightarrow> bool" where
  "num_gt a b = num_lt b a"

definition num_ge :: "jsval \<Rightarrow> jsval \<Rightarrow> bool" where
  "num_ge a b = num_le b a"

subsection \<open>Division of doubles\<close>

text \<open>
  A quotient is rounded to the nearest double, a tie going to the even significand: 53
  significant bits (\<open>9007199254740992\<close> is 2 to the 53), exponents from -1022 to 1023,
  below that the fixed spacing of the exponent -1022, above that an infinity.
\<close>

definition pow2 :: "int \<Rightarrow> rat" where
  "pow2 e = (if 0 \<le> e then 2 ^ nat e else 1 / 2 ^ nat (- e))"

function bit_length :: "int \<Rightarrow> int" where
  "bit_length n = (if n \<le> 0 then 0 else 1 + bit_length (n div 2))"
  by auto
termination
  by (relation "measure nat") auto

declare bit_length.simps [simp del]

text \<open>For \<open>0 < a\<close>, the \<open>e\<close> with \<open>pow2 e \<le> a < pow2 (e + 1)\<close>.\<close>

definition floor_log2 :: "rat \<Rightarrow> int" where
  "floor_log2 a =
     (let (p, d) = quotient_of a;
          e = bit_length p - bit_length d
      in if pow2 e \<le> a then e else e - 1)"

definition round_half_even :: "rat \<Rightarrow> int" where
  "round_half_even x =
     (let f = \<lfloor>x\<rfloor>; r = x - of_int f
      in if r < 1 / 2 then f else if 1 / 2 < r then f + 1 else if even f then f else f + 1)"

definition round_double :: "rat \<Rightarrow> number" where
  "round_double q =
     (if q = 0 then Finite 0
      else
        let a = \<bar>q\<bar>;
            l = floor_log2 a
        in if 1024 \<le> l then (if q < 0 then NegInf else PosInf)
           else
             let e = max l (- 1022);
                 ulp = pow2 (e - 52);
                 m = round_half_even (a / ulp)
             in if e = 1023 \<and> 9007199254740992 \<le> m then (if q < 0 then NegInf else PosInf)
                else Finite (if q < 0 then - (of_int m * ulp) else of_int m * ulp))"

text \<open>\<^verbatim>\<open>x / y\<close> on two doubles\<close>

definition number_div :: "rat \<Rightarrow> rat \<Rightarrow> number" where
  "number_div x y =
     (if y = 0 then (if x = 0 then NaN else if x < 0 then NegInf else PosInf)
      else round_double (x / y))"

text \<open>
  \<^verbatim>\<open>(a / b) % 1 !== 0\<close> on two numbers: the remainder of a finite quotient is exact, and
  that of an infinity or of \<^verbatim>\<open>NaN\<close> is \<^verbatim>\<open>NaN\<close>, which differs from 0.
\<close>

definition quotient_not_whole :: "jsval \<Rightarrow> jsval \<Rightarrow> bool" where
  "quotient_not_whole a b =
     (case (a, b) of
        (JNum x, JNum y) \<Rightarrow> (case number_div x y of Finite q \<Rightarrow> \<not> is_whole q | _ \<Rightarrow> True)
      | _ \<Rightarrow> True)"

subsection \<open>Type predicates\<close>

text \<open>
  Modelled from the spec: the type-guard predicates of \<^verbatim>\<open>../types\<close> are not among the
  sources; the spec describes them as stateless type and shape tests (object, array, string,
  number, integer, boolean, enum, schema-shape). An enum of strings is a non-empty array of
  strings; a schema is an object or a boolean. Of the built-in members only the prototype
  object is an object; the others are functions.
\<close>

definition isUndefined :: "jsval \<Rightarrow> bool" where
  "isUndefined v = (v = JUndefined)"

definition isBoolean :: "jsval \<Rightarrow> bool" where
  "isBoolean v = (case v of JBool _ \<Rightarrow> True | _ \<Rightarrow> False)"

definition isNumber :: "jsval \<Rightarrow> bool" where
  "isNumber v = (case v of JNum _ \<Rightarrow> True | _ \<Rightarrow> False)"

definition isInteger :: "jsval \<Rightarrow> bool" where
  "isInteger v = (case v of JNum q \<Rightarrow> is_whole q | _ \<Rightarrow> False)"

definition isString :: "jsval \<Rightarrow> bool" where
  "isString v = (case v of JStr _ \<Rightarrow> True | _ \<Rightarrow> False)"

definition isArray :: "jsval \<Rightarrow> bool" where
  "isArray v = (case v of JArr _ \<Rightarrow> True | _ \<Rightarrow> False)"

definition isObject :: "jsval \<Rightarrow> bool" where
  "isObject v = (case v of JObj _ \<Rightarrow> True | JBuiltin n \<Rightarrow> n = ''__proto__'' | _ \<Rightarrow> False)"

definition isTypedArray :: "jsval \<Rightarrow> (jsval \<Rightarrow> bool) \<Rightarrow> bool" where
  "isTypedArray v p = (case v of JArr xs \<Rightarrow> list_all p xs | _ \<Rightarrow> False)"

definition isEnum :: "jsval \<Rightarrow> (jsval \<Rightarrow> bool) \<Rightarrow> bool" where
  "isEnum v p = (case v of JArr xs \<Rightarrow> xs \<noteq> [] \<and> list_all p xs | _ \<Rightarrow> False)"

definition isSchema :: "jsval \<Rightarrow> bool" where
  "isSchema v = (isObject v \<or> isBoolean v)"

section \<open>optimize.js: the executor and the size checks\<close>

text \<open>
  \<^verbatim>\<open>for (let fn of optimized) fn(value, schema)\<close>: each check is called in turn and what it
  returns is dropped; a check that throws ends the loop.
\<close>

fun assertOptimized_for :: "'s check list \<Rightarrow> jsval \<Rightarrow> jsval \<Rightarrow> 's \<Rightarrow> (error + unit) \<times> 's" where
  "assertOptimized_for [] value schema s = (Inr (), s)"
| "assertOptimized_for (fn # fns) value schema s =
     (case fn value schema s of
        (Inl e, s') \<Rightarrow> (Inl e, s')
      | (Inr _, s') \<Rightarrow> assertOptimized_for fns value schema s')"

definition assertOptimized :: "jsval \<Rightarrow> jsval \<Rightarrow> 's check list \<Rightarrow> 's \<Rightarrow> (error + unit) \<times> 's" where
  "assertOptimized value schema optimized s =
     (if schema = JBool False
      then (Inl (Error (CHR 0x27 # ''false'' @ CHR 0x27 # '' Schema invalidates all values'')), s)
      else assertOptimized_for optimized value schema s)"

definition assertSizeMax_check :: "host \<Rightarrow> string \<Rightarrow> pure_check" where
  "assertSizeMax_check h key results ref =
     bindE (member h results ''length'') (\<lambda>len.
     bindE (member h ref key) (\<lambda>limit.
     bindE (js_gt h len limit) (\<lambda>exceeded.
       if exceeded then Inl (Error (''#'' @ key @ '': value maximum exceeded''))
       else Inr RetUndefined)))"

definition assertSizeMax :: "host \<Rightarrow> jsval \<Rightarrow> string \<Rightarrow> error + pure_check" where
  "assertSizeMax h sz key =
     (if \<not> (isInteger sz \<and> num_gt sz (JNum 0))
      then Inl (TypeError (''#'' @ key @ '': keyword must be a positive integer''))
      else Inr (assertSizeMax_check h key))"

definition assertSizeMin_check :: "host \<Rightarrow> string \<Rightarrow> pure_check" where
  "assertSizeMin_check h key results ref =
     bindE (member h results ''length'') (\<lambda>len.
     bindE (member h ref key) (\<lambda>limit.
     bindE (js_lt h len limit) (\<lambda>short.
       if short then Inl (Error (''#'' @ key @ '': value minimum not met''))
       else Inr RetUndefined)))"

definition assertSizeMin :: "host \<Rightarrow> jsval \<Rightarrow> string \<Rightarrow> error + pure_check" where
  "assertSizeMin h sz key =
     (if \<not> (isInteger sz \<and> num_gt sz (JNum 0))
      then Inl (TypeError (''#'' @ key @ '': keyword must be a positive integer''))
      else Inr (assertSizeMin_check h key))"

section \<open>AssertNumber.js\<close>

text \<open>\<^verbatim>\<open>const assertion = type === 'integer' ? isInteger : isNumber\<close>\<close>

datatype assertion = IsInteger | IsNumber

definition assertion_of :: "jsval \<Rightarrow> assertion" where
  "assertion_of type = (if type = JStr ''integer'' then IsInteger else IsNumber)"

definition assertion_holds :: "assertion \<Rightarrow> jsval \<Rightarrow> bool" where
  "assertion_holds a v = (case a of IsInteger \<Rightarrow> isInteger v | IsNumber \<Rightarrow> isNumber v)"

definition assertion_name :: "assertion \<Rightarrow> string" where
  "assertion_name a = (case a of IsInteger \<Rightarrow> ''isInteger'' | IsNumber \<Rightarrow> ''isNumber'')"

text \<open>The default \<^verbatim>\<open>exclusive = false\<close> applies to an argument that is \<^verbatim>\<open>undefined\<close>.\<close>

definition ASSERT_MAX :: "jsval \<Rightarrow> jsval \<Rightarrow> assertion \<Rightarrow> error + unit" where
  "ASSERT_MAX maximum exclusive_arg a =
     (let exclusive = (if exclusive_arg = JUndefined then JBool False else exclusive_arg);
          exclusive = (if isNumber exclusive then JBool False else exclusive)
      in if \<not> assertion_holds a maximum then Inl (TypeError ''#maximum: keyword is not the right type'')
         else if \<not> isBoolean exclusive then Inl (TypeError ''#exclusiveMaximum: keyword is not a boolean'')
         else Inr ())"

definition ASSERT_MIN :: "jsval \<Rightarrow> jsval \<Rightarrow> assertion \<Rightarrow> error + unit" where
  "ASSERT_MIN minimum exclusive_arg a =
     (let exclusive = (if exclusive_arg = JUndefined then JBool False else exclusive_arg);
          exclusive = (if isNumber exclusive then JBool False else exclusive)
      in if \<not> assertion_holds a minimum then Inl (TypeError ''#minimum: keyword is not the right type'')
         else if \<not> isBoolean exclusive then Inl (TypeError ''#exclusiveMinimum: keyword is not a boolean'')
         else Inr ())"

definition ASSERT_MULTIPLE :: "jsval \<Rightarrow> assertion \<Rightarrow> error + unit" where
  "ASSERT_MULTIPLE multipleOf a =
     (if \<not> assertion_holds a multipleOf then Inl (TypeError ''#multipleOf: keyword is not the right type'')
      else Inr ())"

text \<open>\<^verbatim>\<open>/^(?:integer|number)$/.test(t)\<close>: the subject is converted to a string first.\<close>

definition names_numeric_type :: "host \<Rightarrow> jsval \<Rightarrow> error + bool" where
  "names_numeric_type h t = bindE (ToString h t) (\<lambda>s. Inr (s = ''integer'' \<or> s = ''number''))"

text \<open>
  The check compiled when a bound keyword is a number. It returns its \<^verbatim>\<open>Error\<close>; it does
  not throw it. Where it compares or divides, the value has passed \<open>assertion\<close> and the
  keyword has passed \<open>isNumber\<close>.
\<close>

definition number_check :: "host \<Rightarrow> assertion \<Rightarrow> pure_check" where
  "number_check h a value ref =
     (if \<not> assertion_holds a value then
        bindE (member h ref ''type'') (\<lambda>t.
        bindE (names_numeric_type h t) (\<lambda>numeric.
          if numeric then Inr (RetError (ErrorT ''#type: value is not a(n) '' t))
          else Inr RetUndefined))
      else if nullish ref then Inl NullAccess
      else if isNumber (field h ref ''maximum'')
              \<and> ((truthy (field h ref ''exclusiveMaximum'') \<and> num_ge value (field h ref ''maximum''))
                   \<or> num_gt value (field h ref ''maximum''))
        then Inr (RetError (ErrorT ''#maximum: value is greater than or equal to '' (field h ref ''maximum'')))
      else if isNumber (field h ref ''exclusiveMaximum'') \<and> num_ge value (field h ref ''exclusiveMaximum'')
        then Inr (RetError (ErrorT ''#exclusiveMaximum: value is greater than or equal to ''
                              (field h ref ''exclusiveMaximum'')))
      else if isNumber (field h ref ''minimum'')
              \<and> ((truthy (field h ref ''exclusiveMinimum'') \<and> num_le value (field h ref ''minimum''))
                   \<or> num_lt value (field h ref ''minimum''))
        then Inr (RetError (ErrorT ''#minimum: value is less than or equal to '' (field h ref ''minimum'')))
      else if isNumber (field h ref ''exclusiveMinimum'') \<and> num_le value (field h ref ''exclusiveMinimum'')
        then Inr (RetError (ErrorT ''#exclusiveMinimum: value is less than or equal to ''
                              (field h ref ''exclusiveMinimum'')))
      else if isNumber (field h ref ''multipleOf'') \<and> quotient_not_whole value (field h ref ''multipleOf'')
        then Inr (RetError (ErrorT ''#multipleOf: value is not a multiple of '' (field h ref ''multipleOf'')))
      else Inr RetUndefined)"

text \<open>The check compiled when only \<^verbatim>\<open>type\<close> names the numeric kind.\<close>

definition number_type_check :: "host \<Rightarrow> assertion \<Rightarrow> pure_check" where
  "number_type_check h a value ref =
     (if \<not> assertion_holds a value
      then bindE (member h ref ''type'') (\<lambda>t.
           bindE (ToString h t) (\<lambda>_. Inr (RetError (ErrorT ''#type: value is not a(n) '' t))))
      else Inr RetUndefined)"

text \<open>\<^verbatim>\<open>AssertNumber.optimize(schema)\<close>\<close>

definition when_defined :: "jsval \<Rightarrow> error + unit \<Rightarrow> error + unit" where
  "when_defined v m = (if \<not> isUndefined v then m else Inr ())"

definition AssertNumber_optimize :: "host \<Rightarrow> jsval \<Rightarrow> error + pure_check list" where
  "AssertNumber_optimize h schema =
     (if nullish schema then Inl NullAccess
      else
        let type = field h schema ''type'';
            exclusiveMaximum = field h schema ''exclusiveMaximum'';
            exclusiveMinimum = field h schema ''exclusiveMinimum'';
            maximum = field h schema ''maximum'';
            minimum = field h schema ''minimum'';
            multipleOf = field h schema ''multipleOf'';
            a = assertion_of type
        in bindE (when_defined maximum (ASSERT_MAX maximum exclusiveMaximum a)) (\<lambda>_.
           bindE (when_defined minimum (ASSERT_MIN minimum exclusiveMinimum a)) (\<lambda>_.
           bindE (when_defined multipleOf (ASSERT_MULTIPLE multipleOf a)) (\<lambda>_.
             if isNumber maximum \<or> isNumber exclusiveMaximum \<or> isNumber minimum
                \<or> isNumber exclusiveMinimum \<or> isNumber multipleOf
             then Inr [number_check h a]
             else if truthy type then
               bindE (ToString h type) (\<lambda>pattern.
                 case regexp_i h pattern of
                   None \<Rightarrow> Inl (SyntaxError pattern)
                 | Some found \<Rightarrow> if found (assertion_name a) then Inr [number_type_check h a] else Inr [])
             else Inr []))))"

section \<open>AssertObject.js\<close>

subsection \<open>Plumbing\<close>

text \<open>Computations that may throw and that read or write the shared variable.\<close>

type_synonym ('s, 'a) comp = "'s \<Rightarrow> (error + 'a) \<times> 's"

definition pureS :: "error + 'a \<Rightarrow> ('s, 'a) comp" where
  "pureS r = (\<lambda>s. (r, s))"

definition bindS :: "('s, 'a) comp \<Rightarrow> ('a \<Rightarrow> ('s, 'b) comp) \<Rightarrow> ('s, 'b) comp" where
  "bindS m f = (\<lambda>s. case m s of (Inl e, s') \<Rightarrow> (Inl e, s') | (Inr a, s') \<Rightarrow> f a s')"

text \<open>The body of an \<^verbatim>\<open>async\<close> function, run to its end: the call returns the promise.\<close>

definition asyncS :: "('s, 'a) comp \<Rightarrow> 's \<Rightarrow> (error + ret) \<times> 's" where
  "asyncS m = (\<lambda>s. case m s of (r, s') \<Rightarrow> (async_ret r, s'))"

text \<open>The parameter pattern \<^verbatim>\<open>[value, key, val]\<close>.\<close>

definition nth_or_undefined :: "jsval list \<Rightarrow> nat \<Rightarrow> jsval" where
  "nth_or_undefined xs i = (if i < length xs then xs ! i else JUndefined)"

definition destructure3 :: "jsval \<Rightarrow> error + (jsval \<times> jsval \<times> jsval)" where
  "destructure3 t =
     (case t of
        JArr xs \<Rightarrow> Inr (nth_or_undefined xs 0, nth_or_undefined xs 1, nth_or_undefined xs 2)
      | JStr s \<Rightarrow> (let xs = map (\<lambda>c. JStr [c]) s
                    in Inr (nth_or_undefined xs 0, nth_or_undefined xs 1, nth_or_undefined xs 2))
      | _ \<Rightarrow> Inl NotIterable)"

text \<open>\<^verbatim>\<open>a !== b\<close> is \<open>\<not> strict_equal a b\<close>; two arrays or objects are taken as different references.\<close>

definition strict_equal :: "jsval \<Rightarrow> jsval \<Rightarrow> bool" where
  "strict_equal a b = (a = b \<and> \<not> isArray a \<and> \<not> (case a of JObj _ \<Rightarrow> True | _ \<Rightarrow> False))"

text \<open>
  \<^verbatim>\<open>node[OPTIMIZED]\<close>: the slot of an object or array node; a boolean, a number, a string
  or a built-in carries none.
\<close>

definition OPTIMIZED_of :: "host \<Rightarrow> jsval \<Rightarrow> error + pure_check list" where
  "OPTIMIZED_of h node =
     (if nullish node then Inl NullAccess
      else Inr (case node of JObj _ \<Rightarrow> cache h node | JArr _ \<Rightarrow> cache h node | _ \<Rightarrow> []))"

text \<open>\<^verbatim>\<open>assertOptimized(v, node, node[OPTIMIZED])\<close>\<close>

definition run_sub :: "host \<Rightarrow> jsval \<Rightarrow> jsval \<Rightarrow> ('s, unit) comp" where
  "run_sub h v node =
     bindS (pureS (OPTIMIZED_of h node)) (\<lambda>fns. assertOptimized v node (map lift_check fns))"

subsection \<open>properties, patternProperties, additionalProperties\<close>

definition properties_check :: "host \<Rightarrow> bool check" where
  "properties_check h tuple ref =
     asyncS (bindS (pureS (destructure3 tuple)) (\<lambda>(value, key, val).
             bindS (pureS (bindE (member h ref ''properties'') (\<lambda>ps. member_at h ps key))) (\<lambda>sub.
               if isSchema sub then run_sub h val sub else pureS (Inr ()))))"

text \<open>
  The compiled patterns are kept with their keys, in the order of
  \<^verbatim>\<open>Object.keys(patternProperties)\<close>.
\<close>

fun compile_patterns ::
    "(string \<Rightarrow> (string \<Rightarrow> bool) option) \<Rightarrow> string list \<Rightarrow> error + (string \<times> (string \<Rightarrow> bool)) list" where
  "compile_patterns re [] = Inr []"
| "compile_patterns re (k # ks) =
     (case re k of
        None \<Rightarrow> Inl (SyntaxError k)
      | Some test \<Rightarrow> bindE (compile_patterns re ks) (\<lambda>rest. Inr ((k, test) # rest)))"

text \<open>
  The loop of the pattern check; the state is \<^verbatim>\<open>patternMatch\<close>. \<^verbatim>\<open>test(key)\<close> converts
  the key to a string.
\<close>

fun pattern_for ::
    "host \<Rightarrow> (string \<times> (string \<Rightarrow> bool)) list \<Rightarrow> jsval \<Rightarrow> jsval \<Rightarrow> jsval \<Rightarrow> (bool, unit) comp" where
  "pattern_for h [] key val ref = pureS (Inr ())"
| "pattern_for h ((i, test) # rest) key val ref =
     bindS (pureS (ToString h key)) (\<lambda>subject.
       if test subject
       then (\<lambda>_. bindS (pureS (bindE (member h ref ''patternProperties'') (\<lambda>pp. member h pp i))) (\<lambda>sub.
                  bindS (run_sub h val sub) (\<lambda>_. pattern_for h rest key val ref)) True)
       else pattern_for h rest key val ref)"

definition pattern_check :: "host \<Rightarrow> (string \<times> (string \<Rightarrow> bool)) list \<Rightarrow> bool check" where
  "pattern_check h pats tuple ref =
     asyncS (bindS (pureS (destructure3 tuple)) (\<lambda>(value, key, val).
               (\<lambda>_. pattern_for h pats key val ref False)))"

text \<open>\<^verbatim>\<open>ref.properties && ref.properties[key]\<close>, as a condition\<close>

definition named_property :: "host \<Rightarrow> jsval \<Rightarrow> jsval \<Rightarrow> error + bool" where
  "named_property h ref key =
     bindE (member h ref ''properties'') (\<lambda>ps.
       if truthy ps then bindE (member_at h ps key) (\<lambda>x. Inr (truthy x)) else Inr False)"

definition additional_schema_check :: "host \<Rightarrow> bool check" where
  "additional_schema_check h tuple ref =
     asyncS (bindS (pureS (destructure3 tuple)) (\<lambda>(value, key, val).
             bindS (pureS (named_property h ref key)) (\<lambda>named.
               (\<lambda>patternMatch.
                  if \<not> named \<and> \<not> patternMatch
                  then bindS (pureS (member h ref ''additionalProperties''))
                         (\<lambda>ap. run_sub h val ap) patternMatch
                  else (Inr (), patternMatch)))))"

definition additional_false_check :: "host \<Rightarrow> bool check" where
  "additional_false_check h tuple ref =
     asyncS (bindS (pureS (destructure3 tuple)) (\<lambda>(value, key, val).
             bindS (pureS (named_property h ref key)) (\<lambda>named.
               (\<lambda>patternMatch.
                  if \<not> named \<and> \<not> patternMatch
                  then (Inl (Error ''#additionalProperties: additional properties not allowed''), patternMatch)
                  else (Inr (), patternMatch)))))"

definition ASSERT_PROPERTIES :: "host \<Rightarrow> jsval \<Rightarrow> error + bool check list" where
  "ASSERT_PROPERTIES h schema =
     (if nullish schema then Inl NullAccess
      else
        let properties = field h schema ''properties'';
            patternProperties = field h schema ''patternProperties'';
            additionalProperties = field h schema ''additionalProperties''
        in bindE (if isObject properties then Inr [properties_check h]
                  else if \<not> isUndefined properties then Inl (TypeError ''#properties: must be an Object'')
                  else Inr []) (\<lambda>l1.
           bindE (if isObject patternProperties
                  then bindE (compile_patterns (regexp h) (map fst (own_props patternProperties)))
                         (\<lambda>pats. Inr [pattern_check h pats])
                  else if \<not> isUndefined patternProperties
                  then Inl (TypeError ''#patternProperties: must be an Object'')
                  else Inr []) (\<lambda>l2.
           bindE (if isObject additionalProperties then Inr [additional_schema_check h]
                  else if isBoolean additionalProperties \<and> additionalProperties = JBool False
                  then Inr [additional_false_check h]
                  else if \<not> isUndefined additionalProperties
                  then Inl (TypeError ''#additionalProperties: must be either a Schema or Boolean'')
                  else Inr []) (\<lambda>l3.
             Inr (l1 @ l2 @ l3)))))"

subsection \<open>dependencies\<close>

text \<open>The compile-time loop over the entries.\<close>

definition dependency_ok :: "host \<Rightarrow> jsval \<Rightarrow> bool" where
  "dependency_ok h v =
     ((isArray v \<and> \<not> truthy (field h v ''length'')) \<or> isEnum v isString \<or> isSchema v)"

fun dependencies_for :: "host \<Rightarrow> jsval \<Rightarrow> string list \<Rightarrow> error + unit" where
  "dependencies_for h dependencies [] = Inr ()"
| "dependencies_for h dependencies (k # ks) =
     (if \<not> dependency_ok h (field h dependencies k)
      then Inl (TypeError ''#dependencies: all dependencies must either be Schemas|enums'')
      else dependencies_for h dependencies ks)"

text \<open>The run-time loop over the companion keys of an array entry.\<close>

fun dependencies_each :: "host \<Rightarrow> jsval \<Rightarrow> jsval \<Rightarrow> jsval list \<Rightarrow> error + unit" where
  "dependencies_each h value key [] = Inr ()"
| "dependencies_each h value key (depKey # rest) =
     bindE (member_at h value depKey) (\<lambda>x.
       if isUndefined x
       then bindE (ToString h key) (\<lambda>name.
              Inl (Error (''#dependencies: value does not have '' @ CHR 0x27 # name
                            @ CHR 0x27 # '' dependency'')))
       else dependencies_each h value key rest)"

definition dependencies_check :: "host \<Rightarrow> bool check" where
  "dependencies_check h tuple ref =
     asyncS (bindS (pureS (destructure3 tuple)) (\<lambda>(value, key, val).
             bindS (pureS (bindE (member h ref ''dependencies'') (\<lambda>ds. member_at h ds key))) (\<lambda>d.
               if isUndefined d then pureS (Inr ())
               else (case d of
                       JArr depKeys \<Rightarrow> pureS (dependencies_each h value key depKeys)
                     | _ \<Rightarrow> run_sub h value d))))"

definition ASSERT_DEPENDENCIES :: "host \<Rightarrow> jsval \<Rightarrow> error + bool check" where
  "ASSERT_DEPENDENCIES h dependencies =
     bindE (Object_keys dependencies) (\<lambda>keys.
     bindE (dependencies_for h dependencies keys) (\<lambda>_.
       Inr (dependencies_check h)))"

subsection \<open>propertyNames\<close>

definition property_names_check :: "host \<Rightarrow> bool check" where
  "property_names_check h tuple ref =
     asyncS (bindS (pureS (destructure3 tuple)) (\<lambda>(value, key, val).
             bindS (pureS (member h ref ''propertyNames'')) (\<lambda>pn. run_sub h key pn)))"

definition ASSERT_KEYS :: "host \<Rightarrow> jsval \<Rightarrow> error + bool check" where
  "ASSERT_KEYS h propertyNames =
     (if \<not> isSchema propertyNames then Inl (TypeError ''#propertyNames: must be a Schema'')
      else Inr (property_names_check h))"

subsection \<open>required\<close>

text \<open>\<^verbatim>\<open>obj[k] = v\<close> on the property list\<close>

fun obj_set :: "(string \<times> jsval) list \<Rightarrow> string \<Rightarrow> jsval \<Rightarrow> (string \<times> jsval) list" where
  "obj_set [] k v = [(k, v)]"
| "obj_set ((k', v') # ps) k v = (if k' = k then (k', v) # ps else (k', v') # obj_set ps k v)"

text \<open>
  \<^verbatim>\<open>list.reduce((obj, val) => { obj[val] = true; return obj }, {})\<close> on the strings of the
  list. Assigning \<^verbatim>\<open>true\<close> to \<^verbatim>\<open>__proto__\<close> reaches the inherited setter, which ignores
  a value that is no object, and creates no own property.
\<close>

definition req_of :: "string list \<Rightarrow> jsval" where
  "req_of names =
     JObj (foldl (\<lambda>obj val. if val = ''__proto__'' then obj else obj_set obj val (JBool True)) [] names)"

definition assertReq :: "host \<Rightarrow> pure_check" where
  "assertReq h results ref =
     async_ret (bindE (member h results ''reqCount'') (\<lambda>reqCount.
                bindE (member h ref ''required'') (\<lambda>required.
                bindE (member h required ''length'') (\<lambda>n.
                  if \<not> strict_equal reqCount n
                  then Inl (Error ''#required: value does not have all required properties'')
                  else Inr ()))))"

text \<open>
  The result \<^verbatim>\<open>{ req, assertReq }\<close>; \<^verbatim>\<open>assertReq\<close> is missing when there is no list. Past
  the guard the list is an array of strings, \<open>[s. JStr s \<leftarrow> xs]\<close>.
\<close>

definition ASSERT_REQUIRED :: "host \<Rightarrow> jsval \<Rightarrow> error + (jsval \<times> pure_check option)" where
  "ASSERT_REQUIRED h list =
     (if isUndefined list then Inr (JObj [], None)
      else if \<not> isArray list \<or> \<not> isTypedArray list isString
      then Inl (TypeError ''#required: required properties must be defined in an array of strings'')
      else Inr (req_of [s. JStr s \<leftarrow> (case list of JArr xs \<Rightarrow> xs | _ \<Rightarrow> [])], Some (assertReq h)))"

subsection \<open>The compiled object check\<close>

text \<open>
  The pass over the keys: the tally \<^verbatim>\<open>reqCount\<close> and, when there are per-key checks,
  \<^verbatim>\<open>assertOptimized([value, key, val], ref, innerList)\<close> for each key.
\<close>

fun object_for ::
    "host \<Rightarrow> bool check list \<Rightarrow> jsval \<Rightarrow> jsval \<Rightarrow> jsval \<Rightarrow> string list \<Rightarrow> nat \<Rightarrow> (bool, nat) comp" where
  "object_for h innerList req value ref [] reqCount = pureS (Inr reqCount)"
| "object_for h innerList req value ref (key # keys) reqCount =
     (let val = field h value key;
          reqCount' = (if truthy (field h req key) then reqCount + 1 else reqCount)
      in if innerList \<noteq> []
         then bindS (assertOptimized (JArr [value, JStr key, val]) ref innerList)
                (\<lambda>_. object_for h innerList req value ref keys reqCount')
         else object_for h innerList req value ref keys reqCount')"

text \<open>
  The pass of the compiled check over an object: it ends with the measurement
  \<^verbatim>\<open>{ length, reqCount }\<close> that is handed to the whole-object checks.
\<close>

definition object_results :: "host \<Rightarrow> bool check list \<Rightarrow> jsval \<Rightarrow> jsval \<Rightarrow> jsval \<Rightarrow> (bool, jsval) comp" where
  "object_results h innerList req value ref =
     (let keys = map fst (own_props value);
          len = length keys
      in bindS (if innerList \<noteq> [] \<or> own_props req \<noteq> []
                then object_for h innerList req value ref keys 0
                else pureS (Inr 0)) (\<lambda>reqCount.
           pureS (Inr (JObj [(''length'', JNum (of_nat len)), (''reqCount'', JNum (of_nat reqCount))]))))"

definition object_check :: "host \<Rightarrow> bool check list \<Rightarrow> bool check list \<Rightarrow> jsval \<Rightarrow> bool check" where
  "object_check h innerList outerList req value ref =
     asyncS
       (if \<not> isObject value
        then bindS (pureS (member h ref ''type'')) (\<lambda>t.
               if t = JStr ''object'' then pureS (Inl (Error ''#type: value is not an object''))
               else pureS (Inr ()))
        else bindS (object_results h innerList req value ref) (\<lambda>results.
               if outerList \<noteq> [] then assertOptimized results ref outerList
               else pureS (Inr ())))"

definition object_type_check :: "bool check" where
  "object_type_check value ref =
     asyncS (if \<not> isObject value then pureS (Inl (Error ''#type: value is not an object''))
             else pureS (Inr ()))"

definition AssertObject_optimize :: "host \<Rightarrow> jsval \<Rightarrow> error + bool check list" where
  "AssertObject_optimize h schema =
     (if nullish schema then Inl NullAccess
      else
        let type = field h schema ''type'';
            dependencies = field h schema ''dependencies'';
            maxProperties = field h schema ''maxProperties'';
            minProperties = field h schema ''minProperties'';
            propertyNames = field h schema ''propertyNames'';
            required = field h schema ''required''
        in bindE (ASSERT_PROPERTIES h schema) (\<lambda>ps.
           bindE (if \<not> isUndefined dependencies
                  then bindE (ASSERT_DEPENDENCIES h dependencies) (\<lambda>c. Inr [c])
                  else Inr []) (\<lambda>ds.
           bindE (if \<not> isUndefined propertyNames
                  then bindE (ASSERT_KEYS h propertyNames) (\<lambda>c. Inr [c])
                  else Inr []) (\<lambda>ns.
           bindE (ASSERT_REQUIRED h required) (\<lambda>(req, assertReq_opt).
           bindE (if \<not> isUndefined maxProperties
                  then bindE (assertSizeMax h maxProperties ''maxProperties'') (\<lambda>c. Inr [lift_check c])
                  else Inr []) (\<lambda>mx.
           bindE (if \<not> isUndefined minProperties
                  then bindE (assertSizeMin h minProperties ''minProperties'') (\<lambda>c. Inr [lift_check c])
                  else Inr []) (\<lambda>mn.
             let innerList = ps @ ds @ ns;
                 outerList = (case assertReq_opt of None \<Rightarrow> [] | Some c \<Rightarrow> [lift_check c]) @ mx @ mn
             in if innerList \<noteq> [] \<or> outerList \<noteq> []
                then Inr [object_check h innerList outerList req]
                else if type = JStr ''object'' then Inr [object_type_check]
                else Inr [])))))))"

section \<open>Notions used in the statements\<close>

text \<open>
  A host for the examples: it refuses every pattern, stores no checks and converts
  trivially. The examples involve plain objects, numbers and strings, and none of them reaches
  a conversion or a prototype other than \<^verbatim>\<open>Object.prototype\<close>.
\<close>

definition example_host :: "host" where
  "example_host =
     \<lparr> regexp = (\<lambda>p. None), regexp_i = (\<lambda>p. None), inherited = (\<lambda>v k. None),
       number_to_string = (\<lambda>q. []), builtin_to_string = (\<lambda>n. []),
       string_to_number = (\<lambda>s. NaN), cache = (\<lambda>node. []) \<rparr>"

text \<open>A check that never throws to its caller, as every \<^verbatim>\<open>async\<close> function is.\<close>

definition never_throws :: "'s check \<Rightarrow> bool" where
  "never_throws fn = (\<forall>value ref s. \<exists>r. fst (fn value ref s) = Inr r)"

text \<open>The spec's "positive whole number", for the size given to the factories.\<close>

definition positive_whole :: "jsval \<Rightarrow> bool" where
  "positive_whole v = (case v of JNum q \<Rightarrow> is_whole q \<and> 0 < q | _ \<Rightarrow> False)"

text \<open>
  The tally of a pass: the own keys of the value that are listed or that bear the name of a
  member of \<^verbatim>\<open>Object.prototype\<close>; none when the pass is skipped.
\<close>

definition tally :: "bool check list \<Rightarrow> string list \<Rightarrow> string list \<Rightarrow> nat" where
  "tally innerList names keys =
     (if innerList \<noteq> [] \<or> own_props (req_of names) \<noteq> []
      then length (filter (\<lambda>k. k \<in> set names \<or> k \<in> set Object_prototype_names) keys)
      else 0)"

section \<open>Properties\<close>

subsection \<open>Evaluation helpers\<close>

lemmas js_simps = field_def member_def nullish_def own_props_def isNumber_def isBoolean_def
  isUndefined_def isObject_def isArray_def isString_def isInteger_def truthy_def
  num_lt_def num_le_def num_gt_def num_ge_def bindE_def assertion_holds_def
  Object_prototype_names_def

lemma field_nullish: "nullish v \<Longrightarrow> field h v k = JUndefined"
  by (simp add: field_def member_def)

lemma member_field: "\<not> nullish v \<Longrightarrow> member h v k = Inr (field h v k)"
  by (auto simp: field_def member_def split: option.splits jsval.splits)

lemma field_JObj:
  "field h (JObj ps) k =
     (case map_of ps k of
        Some v \<Rightarrow> v
      | None \<Rightarrow> if k \<in> set Object_prototype_names then JBuiltin k else JUndefined)"
  by (simp add: field_def member_def nullish_def own_props_def split: option.splits)

lemma field_JObj_own: "distinct (map fst ps) \<Longrightarrow> (k, v) \<in> set ps \<Longrightarrow> field h (JObj ps) k = v"
  by (simp add: field_JObj)

lemma size_guard: "(isInteger sz \<and> num_gt sz (JNum 0)) = positive_whole sz"
  by (cases sz) (auto simp: isInteger_def num_gt_def num_lt_def positive_whole_def)

lemma positive_whole_3: "positive_whole (JNum 3)"
  by code_simp


lemma not_positive_whole_half: "\<not> positive_whole (JNum (1 / 2))"
  by code_simp

lemma last_string_of_nat: "last (string_of_nat n) = digit_char (n mod 10)"
  by (subst string_of_nat.simps) simp

lemma digit_char_not_h: "d < 10 \<Longrightarrow> digit_char d \<noteq> CHR ''h''"
proof
  assume d: "d < 10" and "digit_char d = CHR ''h''"
  then have "of_char (digit_char d) = (of_char (CHR ''h'') :: nat)" by simp
  then have "(48 + d) mod 256 = 104" by (simp add: digit_char_def)
  with d show False by simp
qed

lemma string_of_nat_not_length: "string_of_nat n \<noteq> ''length''"
proof
  assume "string_of_nat n = ''length''"
  then have "last (string_of_nat n) = CHR ''h''" by simp
  then show False using digit_char_not_h [of "n mod 10"] by (simp add: last_string_of_nat)
qed

lemma length_not_index: "map_of (zip (map string_of_nat [0..<length xs]) xs) ''length'' = None"
  using string_of_nat_not_length by (fastforce simp: map_of_zip_is_None)

lemma field_JArr_length: "field h (JArr xs) ''length'' = JNum (of_nat (length xs))"
  by (simp add: field_def member_def nullish_def own_props_def length_not_index)

subsection \<open>The executor\<close>

text \<open>
  C2. Whatever the value (\<^verbatim>\<open>undefined\<close> and \<^verbatim>\<open>null\<close> included) and whatever the check
  list, \<open>assertOptimized\<close> called with the schema reference \<^verbatim>\<open>false\<close> throws the
  "schema invalidates all values" error; no check has run: the result does not depend on the
  list and the shared state is as it was.
\<close>

theorem assertOptimized_false_schema:
  "assertOptimized value (JBool False) optimized s =
     (Inl (Error (CHR 0x27 # ''false'' @ CHR 0x27 # '' Schema invalidates all values'')), s)"
  by (simp add: assertOptimized_def)

text \<open>
  C1 (the code departs from it). The claim: a value that violates a compiled check's constraint
  makes \<open>assertOptimized\<close> fail with that check's validation error. At the node
  \<^verbatim>\<open>{type: "number", minimum: 5}\<close> and the value 4 the compiler yields the number check, the
  check reports \<^verbatim>\<open>#minimum\<close> by returning the \<^verbatim>\<open>Error\<close>, and \<open>assertOptimized\<close>, which
  drops what a check returns, returns normally. The same holds for a rejected promise: at
  \<^verbatim>\<open>{required: ["a"]}\<close> and the value \<^verbatim>\<open>{}\<close> the required check is rejected, the compiled
  object check, which runs it through \<open>assertOptimized\<close>, is fulfilled, and
  \<open>assertOptimized\<close> on the compiled list returns normally.
\<close>

theorem assertOptimized_drops_returned_error:
  "AssertNumber_optimize example_host (JObj [(''type'', JStr ''number''), (''minimum'', JNum 5)])
     = Inr [number_check example_host IsNumber]
   \<and> number_check example_host IsNumber (JNum 4) (JObj [(''type'', JStr ''number''), (''minimum'', JNum 5)])
     = Inr (RetError (ErrorT ''#minimum: value is less than or equal to '' (JNum 5)))
   \<and> assertOptimized (JNum 4) (JObj [(''type'', JStr ''number''), (''minimum'', JNum 5)])
        [lift_check (number_check example_host IsNumber)] ()
     = (Inr (), ())
   \<and> AssertObject_optimize example_host (JObj [(''required'', JArr [JStr ''a''])])
     = Inr [object_check example_host [] [lift_check (assertReq example_host)] (req_of [''a''])]
   \<and> assertReq example_host (JObj [(''length'', JNum 0), (''reqCount'', JNum 0)])
        (JObj [(''required'', JArr [JStr ''a''])])
     = Inr (RetPromise (Rejected (Error ''#required: value does not have all required properties'')))
   \<and> object_check example_host [] [lift_check (assertReq example_host)] (req_of [''a'']) (JObj [])
        (JObj [(''required'', JArr [JStr ''a''])]) False
     = (Inr (RetPromise Fulfilled), False)
   \<and> assertOptimized (JObj []) (JObj [(''required'', JArr [JStr ''a''])])
        [object_check example_host [] [lift_check (assertReq example_host)] (req_of [''a''])] False
     = (Inr (), False)"
  by (simp add: AssertNumber_optimize_def assertOptimized_def lift_check_def number_check_def
      assertion_of_def when_defined_def ASSERT_MIN_def Let_def
      AssertObject_optimize_def ASSERT_PROPERTIES_def ASSERT_REQUIRED_def isTypedArray_def
      object_check_def object_results_def req_of_def assertReq_def asyncS_def bindS_def pureS_def
      strict_equal_def async_ret_def not_sym [OF string_of_nat_not_length] js_simps)

theorem assertOptimized_drops_returned_error_witness:
  "number_check example_host IsNumber (JNum 4) (JObj [(''type'', JStr ''number''), (''minimum'', JNum 5)])
     = Inr (RetError (ErrorT ''#minimum: value is less than or equal to '' (JNum 5)))
   \<and> assertOptimized (JNum 4) (JObj [(''type'', JStr ''number''), (''minimum'', JNum 5)])
        [lift_check (number_check example_host IsNumber)] ()
     = (Inr (), ())
   \<and> assertOptimized (JObj []) (JObj [(''required'', JArr [JStr ''a''])])
        [object_check example_host [] [lift_check (assertReq example_host)] (req_of [''a''])] False
     = (Inr (), False)"
  using assertOptimized_drops_returned_error by blast

subsection \<open>The size-threshold factories\<close>

text \<open>
  C8. For a size that is a positive whole number, \<open>assertSizeMax\<close> and \<open>assertSizeMin\<close>
  return their compiled check and raise nothing; for any other size (a number that is not
  positive or not whole, or a value that is not a number) both raise the schema-definition
  error \<^verbatim>\<open>#<key>: keyword must be a positive integer\<close>.
\<close>

theorem assertSize_compile:
  "(positive_whole sz \<longrightarrow>
      assertSizeMax h sz key = Inr (assertSizeMax_check h key)
    \<and> assertSizeMin h sz key = Inr (assertSizeMin_check h key))
   \<and> (\<not> positive_whole sz \<longrightarrow>
      assertSizeMax h sz key = Inl (TypeError (''#'' @ key @ '': keyword must be a positive integer''))
    \<and> assertSizeMin h sz key = Inl (TypeError (''#'' @ key @ '': keyword must be a positive integer'')))"
  by (simp add: assertSizeMax_def assertSizeMin_def size_guard)

theorem assertSize_compile_witness:
  "positive_whole (JNum 3)
   \<and> assertSizeMax example_host (JNum 3) ''maxProperties''
        = Inr (assertSizeMax_check example_host ''maxProperties'')
   \<and> assertSizeMin example_host (JNum 3) ''minProperties''
        = Inr (assertSizeMin_check example_host ''minProperties'')
   \<and> \<not> positive_whole (JNum (1 / 2))
   \<and> assertSizeMax example_host (JNum (1 / 2)) ''maxProperties''
        = Inl (TypeError ''#maxProperties: keyword must be a positive integer'')
   \<and> assertSizeMin example_host (JNum (1 / 2)) ''minProperties''
        = Inl (TypeError ''#minProperties: keyword must be a positive integer'')"
  using assertSize_compile [of "JNum 3" example_host "''maxProperties''"]
        assertSize_compile [of "JNum 3" example_host "''minProperties''"]
        assertSize_compile [of "JNum (1 / 2)" example_host "''maxProperties''"]
        assertSize_compile [of "JNum (1 / 2)" example_host "''minProperties''"]
        positive_whole_3 not_positive_whole_half
  by simp

subsection \<open>The number check\<close>

lemma literal_5_01: "round_double (501 / 100) = Finite (2820379266640773 / 562949953421312)"
  by code_simp

lemma literal_1_3: "round_double (13 / 10) = Finite (5854679515581645 / 4503599627370496)"
  by code_simp

lemma literal_0_1: "round_double (1 / 10) = Finite (3602879701896397 / 36028797018963968)"
  by code_simp

lemma whole_quotient_1_5: "\<not> quotient_not_whole (JNum (3 / 2)) (JNum (1 / 2))"
  by code_simp

lemma not_whole_quotient_1_3:
  "quotient_not_whole (JNum (5854679515581645 / 4503599627370496)) (JNum (1 / 2))"
  by code_simp

text \<open>Rounding decides: the double 0.5 is a multiple of the double 0.1, whose quotient rounds to 5.\<close>

lemma whole_quotient_rounded:
  "\<not> quotient_not_whole (JNum (1 / 2)) (JNum (3602879701896397 / 36028797018963968))"
  by code_simp





text \<open>
  C9. For the node \<^verbatim>\<open>{type: "number", multipleOf: 0.5}\<close> the number compiler yields the
  combined check; the check reports nothing for 1.5 and reports the \<^verbatim>\<open>#multipleOf\<close>
  error for 1.3, that is for the double the literal denotes. The decision is the remainder
  test on the quotient, rounded as doubles are, of the value and the \<^verbatim>\<open>multipleOf\<close> found on
  the node passed at the call.
\<close>

theorem number_multipleOf_half:
  "AssertNumber_optimize h (JObj [(''type'', JStr ''number''), (''multipleOf'', JNum (1 / 2))])
     = Inr [number_check h IsNumber]
   \<and> number_check h IsNumber (JNum (3 / 2)) (JObj [(''type'', JStr ''number''), (''multipleOf'', JNum (1 / 2))])
     = Inr RetUndefined
   \<and> round_double (13 / 10) = Finite (5854679515581645 / 4503599627370496)
   \<and> number_check h IsNumber (JNum (5854679515581645 / 4503599627370496))
        (JObj [(''type'', JStr ''number''), (''multipleOf'', JNum (1 / 2))])
     = Inr (RetError (ErrorT ''#multipleOf: value is not a multiple of '' (JNum (1 / 2))))
   \<and> number_check h IsNumber (JNum v) (JObj [(''type'', JStr ''number''), (''multipleOf'', JNum d)])
     = (case number_div v d of
          Finite q \<Rightarrow> if is_whole q then Inr RetUndefined
                       else Inr (RetError (ErrorT ''#multipleOf: value is not a multiple of '' (JNum d)))
        | _ \<Rightarrow> Inr (RetError (ErrorT ''#multipleOf: value is not a multiple of '' (JNum d))))"
proof -
  have general: "number_check h IsNumber (JNum w) (JObj [(''type'', JStr ''number''), (''multipleOf'', JNum e)])
     = (if quotient_not_whole (JNum w) (JNum e)
        then Inr (RetError (ErrorT ''#multipleOf: value is not a multiple of '' (JNum e)))
        else Inr RetUndefined)" for w e
    by (simp add: number_check_def js_simps)
  have "number_check h IsNumber (JNum v) (JObj [(''type'', JStr ''number''), (''multipleOf'', JNum d)])
     = (case number_div v d of
          Finite q \<Rightarrow> if is_whole q then Inr RetUndefined
                       else Inr (RetError (ErrorT ''#multipleOf: value is not a multiple of '' (JNum d)))
        | _ \<Rightarrow> Inr (RetError (ErrorT ''#multipleOf: value is not a multiple of '' (JNum d))))"
    by (simp add: general quotient_not_whole_def split: number.splits)
  moreover have "AssertNumber_optimize h (JObj [(''type'', JStr ''number''), (''multipleOf'', JNum (1 / 2))])
     = Inr [number_check h IsNumber]"
    by (simp add: AssertNumber_optimize_def Let_def when_defined_def ASSERT_MULTIPLE_def
        assertion_of_def js_simps)
  ultimately show ?thesis
    using general [of "3 / 2" "1 / 2"] general [of "5854679515581645 / 4503599627370496" "1 / 2"]
      whole_quotient_1_5 not_whole_quotient_1_3 literal_1_3
    by simp
qed

subsection \<open>dependencies\<close>

lemma asyncS_never_throws: "never_throws (\<lambda>v r. asyncS (m v r))"
  by (auto simp: never_throws_def asyncS_def async_ret_def split: prod.splits sum.splits)

lemma dependencies_check_never_throws: "never_throws (dependencies_check h)"
  unfolding dependencies_check_def by (rule asyncS_never_throws)

lemma dependency_ok_iff: "dependency_ok h v = (v = JArr [] \<or> isEnum v isString \<or> isSchema v)"
  by (cases v) (auto simp: dependency_ok_def isArray_def field_JArr_length
       truthy_def isEnum_def isSchema_def isObject_def isBoolean_def)

lemma dependencies_for_eq:
  "dependencies_for h d ks =
     (if \<forall>k\<in>set ks. dependency_ok h (field h d k) then Inr ()
      else Inl (TypeError ''#dependencies: all dependencies must either be Schemas|enums''))"
  by (induction ks) auto

text \<open>
  C4 (as stated it fails). The claim: compilation raises the error exactly when some entry is
  neither a non-empty array of strings nor a sub-schema, so an empty array is rejected. The
  empty array is neither, and \<^verbatim>\<open>{a: []}\<close> compiles.
\<close>

theorem dependencies_empty_array_counterexample:
  "\<not> isEnum (JArr []) isString \<and> \<not> isSchema (JArr [])
   \<and> ASSERT_DEPENDENCIES example_host (JObj [(''a'', JArr [])]) = Inr (dependencies_check example_host)"
  by (simp add: isEnum_def isSchema_def isObject_def isBoolean_def ASSERT_DEPENDENCIES_def
      Object_keys_def nullish_def own_props_def bindE_def dependency_ok_def isArray_def
      field_JArr_length field_JObj truthy_def)

text \<open>
  C4, amended. For a \<^verbatim>\<open>dependencies\<close> mapping, compilation raises the schema-definition
  error \<^verbatim>\<open>#dependencies\<close> exactly when some entry is none of: the empty array, a non-empty
  array of strings, a sub-schema; otherwise it returns the dependency check.
\<close>

theorem dependencies_compile:
  assumes "distinct (map fst ps)"
  shows "ASSERT_DEPENDENCIES h (JObj ps) =
     (if \<forall>(k, v)\<in>set ps. v = JArr [] \<or> isEnum v isString \<or> isSchema v
      then Inr (dependencies_check h)
      else Inl (TypeError ''#dependencies: all dependencies must either be Schemas|enums''))"
proof -
  have "(\<forall>k\<in>set (map fst ps). dependency_ok h (field h (JObj ps) k))
      = (\<forall>(k, v)\<in>set ps. v = JArr [] \<or> isEnum v isString \<or> isSchema v)"
    using assms by (force simp: field_JObj_own dependency_ok_iff)
  then show ?thesis
    by (simp add: ASSERT_DEPENDENCIES_def Object_keys_def nullish_def own_props_def bindE_def
        dependencies_for_eq)
qed

theorem dependencies_compile_witness:
  "ASSERT_DEPENDENCIES example_host
      (JObj [(''a'', JArr []), (''b'', JArr [JStr ''x'']), (''c'', JObj [(''type'', JStr ''object'')])])
     = Inr (dependencies_check example_host)
   \<and> ASSERT_DEPENDENCIES example_host (JObj [(''a'', JArr [JStr ''x'']), (''b'', JArr [JNum 1])])
     = Inl (TypeError ''#dependencies: all dependencies must either be Schemas|enums'')
   \<and> ASSERT_DEPENDENCIES example_host (JObj [(''a'', JStr ''b'')])
     = Inl (TypeError ''#dependencies: all dependencies must either be Schemas|enums'')"
  using dependencies_compile [of
      "[(''a'', JArr []), (''b'', JArr [JStr ''x'']), (''c'', JObj [(''type'', JStr ''object'')])]"
      example_host]
    dependencies_compile [of "[(''a'', JArr [JStr ''x'']), (''b'', JArr [JNum 1])]" example_host]
    dependencies_compile [of "[(''a'', JStr ''b'')]" example_host]
  by (simp add: isEnum_def isSchema_def isObject_def isBoolean_def isString_def)

subsection \<open>The tally of the pass\<close>

lemma map_of_obj_set: "map_of (obj_set ps k v) = (map_of ps)(k \<mapsto> v)"
  by (induction ps) (auto simp: fun_eq_iff)

lemma map_of_req_fold:
  "map_of (foldl (\<lambda>obj val. if val = ''__proto__'' then obj else obj_set obj val (JBool True)) acc names) k =
     (if k \<in> set names \<and> k \<noteq> ''__proto__'' then Some (JBool True) else map_of acc k)"
  by (induction names arbitrary: acc) (auto simp: map_of_obj_set)

lemma proto_in_names: "''__proto__'' \<in> set Object_prototype_names"
  by (simp add: Object_prototype_names_def)

lemma truthy_req_of:
  "truthy (field h (req_of names) k) = (k \<in> set names \<or> k \<in> set Object_prototype_names)"
  using proto_in_names
  by (auto simp: req_of_def field_JObj map_of_req_fold truthy_def)

lemma req_of_no_own_keys:
  assumes "own_props (req_of names) = []"
  shows "set names \<subseteq> {''__proto__''}"
proof
  fix k assume k: "k \<in> set names"
  have "map_of (own_props (req_of names)) k = None"
    using assms by simp
  then show "k \<in> {''__proto__''}"
    using k by (simp add: req_of_def own_props_def map_of_req_fold split: if_splits)
qed

lemma never_throwsD: "never_throws fn \<Longrightarrow> \<exists>r s'. fn v ref s = (Inr r, s')"
  unfolding never_throws_def by (metis prod.collapse)

lemma assertOptimized_for_never_throws:
  "\<forall>fn\<in>set fns. never_throws fn \<Longrightarrow> \<exists>s'. assertOptimized_for fns v ref s = (Inr (), s')"
proof (induction fns arbitrary: s)
  case Nil
  then show ?case by simp
next
  case (Cons fn fns)
  then obtain r s1 where "fn v ref s = (Inr r, s1)"
    using never_throwsD [of fn v ref s] by auto
  with Cons show ?case by simp
qed

lemma object_for_tally:
  assumes "\<forall>fn\<in>set innerList. never_throws fn" "ref \<noteq> JBool False"
  shows "\<exists>pm'. object_for h innerList req v ref keys n pm =
     (Inr (n + length (filter (\<lambda>k. truthy (field h req k)) keys)), pm')"
proof (induction keys arbitrary: n pm)
  case Nil
  then show ?case by (simp add: pureS_def)
next
  case (Cons key keys)
  obtain s1 where s1: "assertOptimized (JArr [v, JStr key, field h v key]) ref innerList pm = (Inr (), s1)"
    using assertOptimized_for_never_throws [OF assms(1), of "JArr [v, JStr key, field h v key]" ref pm]
      assms(2) by (auto simp: assertOptimized_def)
  show ?case
  proof (cases "innerList = []")
    case True
    then show ?thesis using Cons [of "if truthy (field h req key) then n + 1 else n" pm]
      by (auto simp: Let_def)
  next
    case False
    then show ?thesis using s1 Cons [of "if truthy (field h req key) then n + 1 else n" s1]
      by (auto simp: Let_def bindS_def)
  qed
qed

lemma object_results_tally:
  assumes "\<forall>fn\<in>set innerList. never_throws fn" "ref \<noteq> JBool False"
  shows "\<exists>pm'. object_results h innerList (req_of names) (JObj ps) ref pm =
     (Inr (JObj [(''length'', JNum (of_nat (length ps))),
                 (''reqCount'', JNum (of_nat (tally innerList names (map fst ps))))]), pm')"
proof (cases "innerList \<noteq> [] \<or> own_props (req_of names) \<noteq> []")
  case True
  obtain pm' where "object_for h innerList (req_of names) (JObj ps) ref (map fst ps) 0 pm =
     (Inr (0 + length (filter (\<lambda>k. truthy (field h (req_of names) k)) (map fst ps))), pm')"
    using object_for_tally [OF assms(1,2)] by blast
  with True show ?thesis
    by (auto simp: object_results_def Let_def own_props_def bindS_def pureS_def truthy_req_of tally_def)
next
  case False
  then show ?thesis
    by (auto simp: object_results_def Let_def own_props_def bindS_def pureS_def tally_def)
qed

lemma assertReq_eq:
  assumes "field h ref ''required'' = JArr ys"
  shows "assertReq h (JObj [(''length'', len), (''reqCount'', JNum (of_nat n))]) ref =
     Inr (RetPromise (if n = length ys then Fulfilled
          else Rejected (Error ''#required: value does not have all required properties'')))"
proof -
  have nn: "\<not> nullish ref" using assms field_nullish by fastforce
  then have "member h ref ''required'' = Inr (JArr ys)"
    using assms by (simp add: member_field)
  moreover have "member h (JArr ys) ''length'' = Inr (JNum (of_nat (length ys)))"
    by (simp add: member_def nullish_def own_props_def length_not_index)
  moreover have "member h (JObj [(''length'', len), (''reqCount'', JNum (of_nat n))]) ''reqCount''
      = Inr (JNum (of_nat n))"
    by (simp add: member_def nullish_def own_props_def)
  ultimately show ?thesis
    by (simp add: assertReq_def bindE_def strict_equal_def isArray_def async_ret_def)
qed

lemma required_verdict:
  assumes "field h ref ''required'' = JArr ys"
    and "\<forall>fn\<in>set innerList. never_throws fn"
    and "ref \<noteq> JBool False"
  shows "\<exists>results pm'.
       object_results h innerList (req_of names) (JObj ps) ref pm = (Inr results, pm')
     \<and> assertReq h results ref =
         Inr (RetPromise
           (if tally innerList names (map fst ps) = length ys then Fulfilled
            else Rejected (Error ''#required: value does not have all required properties'')))"
proof -
  obtain pm' where "object_results h innerList (req_of names) (JObj ps) ref pm =
     (Inr (JObj [(''length'', JNum (of_nat (length ps))),
                 (''reqCount'', JNum (of_nat (tally innerList names (map fst ps))))]), pm')"
    using object_results_tally [OF assms(2,3)] by blast
  then show ?thesis
    using assertReq_eq [OF assms(1)] by auto
qed

subsection \<open>The dependency check\<close>

lemma member_at_JObj: "member_at h (JObj qs) (JStr n) = Inr (field h (JObj qs) n)"
  by (simp add: member_at_def nullish_def bindE_def member_field)

lemma dependencies_each_eq:
  "dependencies_each h (JObj qs) (JStr key) (map JStr names) =
     (if \<exists>n\<in>set names. field h (JObj qs) n = JUndefined
      then Inl (Error (''#dependencies: value does not have '' @ CHR 0x27 # key
                         @ CHR 0x27 # '' dependency''))
      else Inr ())"
  by (induction names) (auto simp: member_at_JObj bindE_def isUndefined_def)

lemma dependencies_check_eq:
  assumes "member h ref ''dependencies'' = Inr deps"
    and "member h deps key = Inr (JArr (map JStr names))"
  shows "dependencies_check h (JArr [JObj qs, JStr key, val]) ref pm =
       (Inr (RetPromise
          (if \<exists>n\<in>set names. field h (JObj qs) n = JUndefined
           then Rejected (Error (''#dependencies: value does not have '' @ CHR 0x27 # key
                                   @ CHR 0x27 # '' dependency''))
           else Fulfilled)), pm)"
proof -
  have "\<not> nullish deps"
    using assms(2) by (auto simp: member_def)
  then have "member_at h deps (JStr key) = Inr (JArr (map JStr names))"
    using assms(2) by (simp add: member_at_def bindE_def)
  then show ?thesis
    using assms(1)
    by (simp add: dependencies_check_def asyncS_def bindS_def pureS_def destructure3_def
        nth_or_undefined_def bindE_def isUndefined_def async_ret_def dependencies_each_eq)
qed

text \<open>
  C10. Let the array-form entry of \<open>key\<close> list the companion names \<open>names\<close>. On an object
  value the dependency check is rejected with the \<^verbatim>\<open>#dependencies\<close> error exactly when
  looking up one of the companions on the value gives \<^verbatim>\<open>undefined\<close>, and is fulfilled
  otherwise: it tests the looked-up value, not the presence of the key. So when the value
  holds the companion \<open>depKey\<close> with the value \<^verbatim>\<open>undefined\<close>, the lookup gives
  \<^verbatim>\<open>undefined\<close> and the check is rejected although the key is on the object. The tally of
  the same pass, for a \<^verbatim>\<open>required\<close> list that names \<open>depKey\<close>, finds the lookup-set entry
  of \<open>depKey\<close> truthy and counts the key, whatever its value: the tally is the number of own
  keys that are listed or that bear the name of a member of \<^verbatim>\<open>Object.prototype\<close>.
\<close>

theorem dependency_undefined_companion:
  assumes "(depKey, JUndefined) \<in> set ps"
    and "distinct (map fst ps)"
    and "member h ref ''dependencies'' = Inr deps"
    and "member h deps key = Inr (JArr (map JStr names))"
    and "depKey \<in> set names"
    and "depKey \<in> set required"
    and "ref \<noteq> JBool False"
  shows "(\<forall>qs val' pm'. dependencies_check h (JArr [JObj qs, JStr key, val']) ref pm' =
           (Inr (RetPromise
              (if \<exists>n\<in>set names. field h (JObj qs) n = JUndefined
               then Rejected (Error (''#dependencies: value does not have '' @ CHR 0x27 # key
                                       @ CHR 0x27 # '' dependency''))
               else Fulfilled)), pm'))
     \<and> field h (JObj ps) depKey = JUndefined
     \<and> dependencies_check h (JArr [JObj ps, JStr key, val]) ref pm =
         (Inr (RetPromise (Rejected (Error (''#dependencies: value does not have '' @ CHR 0x27 # key
              @ CHR 0x27 # '' dependency'')))), pm)
     \<and> truthy (field h (req_of required) depKey)
     \<and> (\<exists>pm'. object_results h [dependencies_check h] (req_of required) (JObj ps) ref pm =
          (Inr (JObj [(''length'', JNum (of_nat (length ps))),
                      (''reqCount'',
                       JNum (of_nat (length (filter (\<lambda>k. k \<in> set required \<or> k \<in> set Object_prototype_names)
                                              (map fst ps)))))]), pm'))"
proof -
  have general: "\<forall>qs val' pm'. dependencies_check h (JArr [JObj qs, JStr key, val']) ref pm' =
           (Inr (RetPromise
              (if \<exists>n\<in>set names. field h (JObj qs) n = JUndefined
               then Rejected (Error (''#dependencies: value does not have '' @ CHR 0x27 # key
                                       @ CHR 0x27 # '' dependency''))
               else Fulfilled)), pm')"
    using dependencies_check_eq [OF assms(3,4)] by blast
  have undef: "field h (JObj ps) depKey = JUndefined"
    using assms(1,2) by (simp add: field_JObj_own)
  then have "\<exists>n\<in>set names. field h (JObj ps) n = JUndefined"
    using assms(5) by blast
  then have rejected: "dependencies_check h (JArr [JObj ps, JStr key, val]) ref pm =
         (Inr (RetPromise (Rejected (Error (''#dependencies: value does not have '' @ CHR 0x27 # key
              @ CHR 0x27 # '' dependency'')))), pm)"
    using dependencies_check_eq [OF assms(3,4), of ps val pm] by simp
  have counted: "truthy (field h (req_of required) depKey)"
    using assms(6) by (simp add: truthy_req_of)
  have "\<exists>pm'. object_results h [dependencies_check h] (req_of required) (JObj ps) ref pm =
          (Inr (JObj [(''length'', JNum (of_nat (length ps))),
                      (''reqCount'',
                       JNum (of_nat (tally [dependencies_check h] required (map fst ps))))]), pm')"
    using assms(7) by (intro object_results_tally) (simp_all add: dependencies_check_never_throws)
  then have tallied: "\<exists>pm'. object_results h [dependencies_check h] (req_of required) (JObj ps) ref pm =
          (Inr (JObj [(''length'', JNum (of_nat (length ps))),
                      (''reqCount'',
                       JNum (of_nat (length (filter (\<lambda>k. k \<in> set required \<or> k \<in> set Object_prototype_names)
                                              (map fst ps)))))]), pm')"
    by (simp add: tally_def)
  from general undef rejected counted tallied show ?thesis
    by blast
qed

theorem dependency_undefined_companion_witness:
  "dependencies_check example_host
       (JArr [JObj [(''a'', JNum 1), (''b'', JUndefined)], JStr ''a'', JNum 1])
       (JObj [(''dependencies'', JObj [(''a'', JArr [JStr ''b''])]), (''required'', JArr [JStr ''b''])])
       False
     = (Inr (RetPromise (Rejected (Error (''#dependencies: value does not have '' @ CHR 0x27 # ''a''
              @ CHR 0x27 # '' dependency'')))), False)
   \<and> dependencies_check example_host
       (JArr [JObj [(''a'', JNum 1), (''b'', JNum 2)], JStr ''a'', JNum 1])
       (JObj [(''dependencies'', JObj [(''a'', JArr [JStr ''b''])]), (''required'', JArr [JStr ''b''])])
       False
     = (Inr (RetPromise Fulfilled), False)
   \<and> (\<exists>pm'. object_results example_host [dependencies_check example_host] (req_of [''b''])
         (JObj [(''a'', JNum 1), (''b'', JUndefined)])
         (JObj [(''dependencies'', JObj [(''a'', JArr [JStr ''b''])]), (''required'', JArr [JStr ''b''])])
         False
       = (Inr (JObj [(''length'', JNum 2), (''reqCount'', JNum 1)]), pm'))"
proof -
  note w = dependency_undefined_companion [of "''b''" "[(''a'', JNum 1), (''b'', JUndefined)]" example_host
      "JObj [(''dependencies'', JObj [(''a'', JArr [JStr ''b''])]), (''required'', JArr [JStr ''b''])]"
      "JObj [(''a'', JArr [JStr ''b''])]" "''a''" "[''b'']" "[''b'']" "JNum 1" False]
  have prem: "member example_host
        (JObj [(''dependencies'', JObj [(''a'', JArr [JStr ''b''])]), (''required'', JArr [JStr ''b''])])
        ''dependencies'' = Inr (JObj [(''a'', JArr [JStr ''b''])])"
    "member example_host (JObj [(''a'', JArr [JStr ''b''])]) ''a'' = Inr (JArr (map JStr [''b'']))"
    by (simp_all add: member_def nullish_def own_props_def)
  have other: "\<not> (\<exists>n\<in>set [''b'']. field example_host (JObj [(''a'', JNum 1), (''b'', JNum 2)]) n = JUndefined)"
    by (simp add: field_JObj)
  have names: "filter (\<lambda>k. k \<in> set [''b''] \<or> k \<in> set Object_prototype_names) (map fst [(''a'', JNum 1), (''b'', JUndefined)])
      = [''b'']"
    by (simp add: Object_prototype_names_def)
  show ?thesis
    using w prem other names by simp
qed

subsection \<open>required\<close>

lemma strings_of_JStr: "[s. JStr s \<leftarrow> map JStr names] = names"
  by (induction names) auto

lemma strings_of_JStr_comp:
  "concat (map ((\<lambda>v. case v of JStr s \<Rightarrow> [s] | _ \<Rightarrow> []) \<circ> JStr) names) = names"
  by (induction names) auto

lemma ASSERT_REQUIRED_strings:
  "ASSERT_REQUIRED h (JArr (map JStr names)) = Inr (req_of names, Some (assertReq h))"
  by (simp add: ASSERT_REQUIRED_def isUndefined_def isArray_def isTypedArray_def isString_def
      list_all_iff strings_of_JStr strings_of_JStr_comp)

lemma count_listed:
  assumes "distinct names" "distinct keys"
  shows "(length (filter (\<lambda>k. k \<in> set names) keys) = length names) = (set names \<subseteq> set keys)"
proof -
  have "length (filter (\<lambda>k. k \<in> set names) keys) = card (set names \<inter> set keys)"
    using assms(2) by (simp add: distinct_length_filter Int_def conj_commute)
  moreover have "length names = card (set names)"
    using assms(1) by (simp add: distinct_card)
  moreover have "(card (set names \<inter> set keys) = card (set names)) = (set names \<subseteq> set keys)"
  proof
    assume "card (set names \<inter> set keys) = card (set names)"
    then have "set names \<inter> set keys = set names"
      by (intro card_subset_eq) auto
    then show "set names \<subseteq> set keys" by blast
  next
    assume "set names \<subseteq> set keys"
    then have "set names \<inter> set keys = set names" by blast
    then show "card (set names \<inter> set keys) = card (set names)" by simp
  qed
  ultimately show ?thesis by simp
qed

lemma tally_listed:
  assumes "distinct names" "distinct keys" "\<forall>k\<in>set keys. k \<notin> set Object_prototype_names"
  shows "(tally innerList names keys = length names) = (set names \<subseteq> set keys)"
proof (cases "innerList \<noteq> [] \<or> own_props (req_of names) \<noteq> []")
  case True
  have "filter (\<lambda>k. k \<in> set names \<or> k \<in> set Object_prototype_names) keys
      = filter (\<lambda>k. k \<in> set names) keys"
    using assms(3) by (intro filter_cong) auto
  with True show ?thesis
    using count_listed [OF assms(1,2)] by (simp add: tally_def)
next
  case False
  then have sub: "set names \<subseteq> {''__proto__''}"
    using req_of_no_own_keys by blast
  have "''__proto__'' \<notin> set keys"
    using assms(3) proto_in_names by blast
  with sub have "(set names \<subseteq> set keys) = (names = [])"
    by (cases names) auto
  with False show ?thesis
    by (auto simp: tally_def)
qed

text \<open>
  C3 (as stated it fails). The claim: the required check succeeds exactly when every listed key
  is present. With \<^verbatim>\<open>required: ["a", "a"]\<close> and the value \<^verbatim>\<open>{a: 1}\<close> the list compiles, the
  only listed key is on the value, the pass tallies 1, and the check is rejected because the
  list has length 2. With \<^verbatim>\<open>required: ["a"]\<close> and the value \<^verbatim>\<open>{constructor: 1}\<close> the listed
  key is not on the value, the pass tallies 1 for \<^verbatim>\<open>constructor\<close>, which the lookup set
  inherits, and the check is fulfilled.
\<close>

theorem required_duplicate_counterexample:
  "ASSERT_REQUIRED example_host (JArr [JStr ''a'', JStr ''a''])
     = Inr (req_of [''a'', ''a''], Some (assertReq example_host))
   \<and> member example_host (JObj [(''a'', JNum 1)]) ''a'' = Inr (JNum 1)
   \<and> object_results example_host [] (req_of [''a'', ''a'']) (JObj [(''a'', JNum 1)])
        (JObj [(''required'', JArr [JStr ''a'', JStr ''a''])]) False
     = (Inr (JObj [(''length'', JNum 1), (''reqCount'', JNum 1)]), False)
   \<and> assertReq example_host (JObj [(''length'', JNum 1), (''reqCount'', JNum 1)])
        (JObj [(''required'', JArr [JStr ''a'', JStr ''a''])])
     = Inr (RetPromise (Rejected (Error ''#required: value does not have all required properties'')))
   \<and> member example_host (JObj [(''constructor'', JNum 1)]) ''a'' = Inr JUndefined
   \<and> object_results example_host [] (req_of [''a'']) (JObj [(''constructor'', JNum 1)])
        (JObj [(''required'', JArr [JStr ''a''])]) False
     = (Inr (JObj [(''length'', JNum 1), (''reqCount'', JNum 1)]), False)
   \<and> assertReq example_host (JObj [(''length'', JNum 1), (''reqCount'', JNum 1)])
        (JObj [(''required'', JArr [JStr ''a''])])
     = Inr (RetPromise Fulfilled)"
  by (simp add: ASSERT_REQUIRED_def isTypedArray_def object_results_def req_of_def assertReq_def
      bindS_def pureS_def Let_def strict_equal_def async_ret_def
      not_sym [OF string_of_nat_not_length] js_simps)

text \<open>
  C3, amended. Take a node whose \<^verbatim>\<open>required\<close> is an array of pairwise distinct strings and
  an object value none of whose own keys bears the name of a member of
  \<^verbatim>\<open>Object.prototype\<close>. The list compiles, and the required check, run on the tally of the
  pass over the value's own keys, is fulfilled exactly when every listed key is an own key of
  the value, whatever the order of the value's keys, and is rejected with the
  \<^verbatim>\<open>#required\<close> error otherwise: the tally must equal the length of the list.
\<close>

theorem required_distinct_keys:
  assumes "distinct names"
    and "distinct (map fst ps)"
    and "\<forall>k\<in>set (map fst ps). k \<notin> set Object_prototype_names"
    and "field h ref ''required'' = JArr (map JStr names)"
    and "\<forall>fn\<in>set innerList. never_throws fn"
    and "ref \<noteq> JBool False"
  shows "ASSERT_REQUIRED h (JArr (map JStr names)) = Inr (req_of names, Some (assertReq h))
     \<and> (\<exists>results pm'.
          object_results h innerList (req_of names) (JObj ps) ref pm = (Inr results, pm')
        \<and> assertReq h results ref =
            Inr (RetPromise
              (if set names \<subseteq> set (map fst ps) then Fulfilled
               else Rejected (Error ''#required: value does not have all required properties''))))"
  using required_verdict [OF assms(4,5,6), of names ps pm] ASSERT_REQUIRED_strings [of h names]
    tally_listed [OF assms(1,2,3), of innerList]
  by simp

theorem required_distinct_keys_witness:
  "(\<exists>results pm'.
      object_results example_host [] (req_of [''b'', ''a'']) (JObj [(''a'', JNum 1), (''b'', JNum 2)])
        (JObj [(''required'', JArr [JStr ''b'', JStr ''a''])]) False = (Inr results, pm')
    \<and> assertReq example_host results (JObj [(''required'', JArr [JStr ''b'', JStr ''a''])])
        = Inr (RetPromise Fulfilled))
   \<and> (\<exists>results pm'.
      object_results example_host [] (req_of [''a'', ''b'']) (JObj [(''a'', JNum 1)])
        (JObj [(''required'', JArr [JStr ''a'', JStr ''b''])]) False = (Inr results, pm')
    \<and> assertReq example_host results (JObj [(''required'', JArr [JStr ''a'', JStr ''b''])])
        = Inr (RetPromise (Rejected (Error ''#required: value does not have all required properties''))))"
  using required_distinct_keys [of "[''b'', ''a'']" "[(''a'', JNum 1), (''b'', JNum 2)]" example_host
      "JObj [(''required'', JArr [JStr ''b'', JStr ''a''])]" "[]" False]
    required_distinct_keys [of "[''a'', ''b'']" "[(''a'', JNum 1)]" example_host
      "JObj [(''required'', JArr [JStr ''a'', JStr ''b''])]" "[]" False]
  by (simp add: field_JObj Object_prototype_names_def)

subsection \<open>Reading the live node\<close>




subsection \<open>additionalProperties\<close>

lemma destructure3_tuple: "destructure3 (JArr [a, b, c]) = Inr (a, b, c)"
  by (simp add: destructure3_def nth_or_undefined_def)

text \<open>What the check computes for a key: a truthy lookup under the key, or a matched pattern.\<close>

lemma additional_false_check_eq:
  assumes "\<not> nullish ref"
  shows "additional_false_check h (JArr [v, JStr key, val]) ref pm =
     (Inr (RetPromise
        (if (truthy (field h ref ''properties'') \<and> truthy (field h (field h ref ''properties'') key)) \<or> pm
         then Fulfilled
         else Rejected (Error ''#additionalProperties: additional properties not allowed''))), pm)"
proof -
  have "named_property h ref (JStr key) =
      Inr (truthy (field h ref ''properties'') \<and> truthy (field h (field h ref ''properties'') key))"
  proof (cases "truthy (field h ref ''properties'')")
    case True
    then have "\<not> nullish (field h ref ''properties'')" by (auto simp: truthy_def nullish_def)
    with True assms show ?thesis
      by (simp add: named_property_def member_field member_at_def bindE_def)
  next
    case False
    with assms show ?thesis
      by (simp add: named_property_def member_field bindE_def)
  qed
  then show ?thesis
    by (simp add: additional_false_check_def asyncS_def bindS_def pureS_def destructure3_tuple async_ret_def)
qed

text \<open>
  C5 (the code departs from it). The claim: under \<^verbatim>\<open>additionalProperties: false\<close> an own key
  that matches neither a named entry of \<^verbatim>\<open>properties\<close> nor a pattern fails with
  \<^verbatim>\<open>#additionalProperties\<close>, and a value whose every own key is named passes. Under
  \<^verbatim>\<open>{type: "object", additionalProperties: false, properties: {a: {type: "string"}}}\<close> the
  compiler registers the property check and the additional-properties check, and that check
  is rejected for the key \<^verbatim>\<open>b\<close> of \<^verbatim>\<open>{a: "x", b: 2}\<close> and fulfilled for the key \<^verbatim>\<open>a\<close>, as
  claimed. But for the own key \<^verbatim>\<open>toString\<close> of \<^verbatim>\<open>{toString: 1}\<close>, which is no entry of
  \<^verbatim>\<open>properties\<close> (its only key is \<^verbatim>\<open>a\<close>), the check is fulfilled: the lookup
  \<^verbatim>\<open>ref.properties[key]\<close> finds the inherited member. And under
  \<^verbatim>\<open>{additionalProperties: false, properties: {a: false}}\<close> the key \<^verbatim>\<open>a\<close>, a named entry
  whose sub-schema the property check recognises, is rejected as additional.
\<close>

theorem additionalProperties_inherited_name:
  "ASSERT_PROPERTIES example_host
      (JObj [(''type'', JStr ''object''), (''additionalProperties'', JBool False),
             (''properties'', JObj [(''a'', JObj [(''type'', JStr ''string'')])])])
     = Inr [properties_check example_host, additional_false_check example_host]
   \<and> additional_false_check example_host
        (JArr [JObj [(''a'', JStr ''x''), (''b'', JNum 2)], JStr ''b'', JNum 2])
        (JObj [(''type'', JStr ''object''), (''additionalProperties'', JBool False),
               (''properties'', JObj [(''a'', JObj [(''type'', JStr ''string'')])])]) False
     = (Inr (RetPromise (Rejected (Error ''#additionalProperties: additional properties not allowed''))),
        False)
   \<and> additional_false_check example_host
        (JArr [JObj [(''a'', JStr ''x'')], JStr ''a'', JStr ''x''])
        (JObj [(''type'', JStr ''object''), (''additionalProperties'', JBool False),
               (''properties'', JObj [(''a'', JObj [(''type'', JStr ''string'')])])]) False
     = (Inr (RetPromise Fulfilled), False)
   \<and> Object_keys (JObj [(''a'', JObj [(''type'', JStr ''string'')])]) = Inr [''a'']
   \<and> additional_false_check example_host
        (JArr [JObj [(''toString'', JNum 1)], JStr ''toString'', JNum 1])
        (JObj [(''type'', JStr ''object''), (''additionalProperties'', JBool False),
               (''properties'', JObj [(''a'', JObj [(''type'', JStr ''string'')])])]) False
     = (Inr (RetPromise Fulfilled), False)
   \<and> isSchema (JBool False)
   \<and> ASSERT_PROPERTIES example_host
        (JObj [(''additionalProperties'', JBool False), (''properties'', JObj [(''a'', JBool False)])])
     = Inr [properties_check example_host, additional_false_check example_host]
   \<and> additional_false_check example_host (JArr [JObj [(''a'', JNum 1)], JStr ''a'', JNum 1])
        (JObj [(''additionalProperties'', JBool False), (''properties'', JObj [(''a'', JBool False)])]) False
     = (Inr (RetPromise (Rejected (Error ''#additionalProperties: additional properties not allowed''))),
        False)"
  by (simp add: Object_keys_def isSchema_def ASSERT_PROPERTIES_def Let_def additional_false_check_eq
      field_JObj nullish_def own_props_def isObject_def isBoolean_def isUndefined_def truthy_def
      bindE_def Object_prototype_names_def)

theorem additionalProperties_inherited_name_witness:
  "additional_false_check example_host
        (JArr [JObj [(''toString'', JNum 1)], JStr ''toString'', JNum 1])
        (JObj [(''type'', JStr ''object''), (''additionalProperties'', JBool False),
               (''properties'', JObj [(''a'', JObj [(''type'', JStr ''string'')])])]) False
     = (Inr (RetPromise Fulfilled), False)"
  using additionalProperties_inherited_name by blast

end
